theory Spec2Isabelle
  imports Main "HOL-Library.Log_Nat"
begin

section \<open>JavaScript strings and the character classes of the regular expressions\<close>

text \<open>
  A JavaScript string is modelled as a \<^typ>\<open>string\<close>; a \<^typ>\<open>char\<close> stands for a
  code unit below 256 (ASCII and Latin-1), which covers every character the regular
  expressions and the keyword list of the source mention.
\<close>

definition isDigit :: "char \<Rightarrow> bool" where
  \<comment> \<open>the class \<open>\d\<close>\<close>
  "isDigit c = (c \<in> set ''0123456789'')"

definition isSpace :: "char \<Rightarrow> bool" where
  \<comment> \<open>the class \<open>\s\<close>, which is also what \<open>trim()\<close> removes: tab, line feed, vertical tab,
     form feed, carriage return, space and the no-break space\<close>
  "isSpace c = (c \<in> set [CHR 0x09, CHR 0x0A, CHR 0x0B, CHR 0x0C, CHR 0x0D, CHR 0x20, CHR 0xA0])"

definition trim :: "string \<Rightarrow> string" where
  "trim s = rev (dropWhile isSpace (rev (dropWhile isSpace s)))"

definition removeSpaces :: "string \<Rightarrow> string" where
  \<comment> \<open>\<open>replace(/\s+/g, '')\<close>: every maximal run of white space is replaced by nothing\<close>
  "removeSpaces s = filter (\<lambda>c. \<not> isSpace c) s"

fun hasLargeNumbers :: "string \<Rightarrow> bool" where
  \<comment> \<open>\<open>/\d{10,}/.test(s)\<close>: the pattern is tried at every position, and matches there when
     ten or more digits follow\<close>
  "hasLargeNumbers [] = False"
| "hasLargeNumbers (c # cs) =
     (10 \<le> length (takeWhile isDigit (c # cs)) \<or> hasLargeNumbers cs)"

text \<open>
  The two patterns \<open>(\d+)\s*([+\-*/])\s*(\d+)\<close> (in \<open>evaluateBigInt\<close>) and
  \<open>\d+[\s]*[+\-*/^%][\s]*\d+\<close> (in \<open>isMathQuery\<close>) differ only in the operator class.
  \<open>matchAt ops s\<close> matches the pattern at the start of \<open>s\<close>, the way the backtracking matcher
  does: each quantifier takes the longest run first. The shorter runs it would try next leave
  a digit before the operator class or a white space before a digit, so they fail wherever the
  longest run fails. \<open>regexMatch ops s\<close> tries the positions of \<open>s\<close> from left to right and
  returns the three groups of the first match.
\<close>

definition matchAt :: "string \<Rightarrow> string \<Rightarrow> (string \<times> char \<times> string) option" where
  "matchAt ops s =
     (let num1 = takeWhile isDigit s;
          r1 = dropWhile isSpace (dropWhile isDigit s)
      in if num1 = [] then None
         else case r1 of
           [] \<Rightarrow> None
         | op # r2 \<Rightarrow>
             if op \<in> set ops then
               (let num2 = takeWhile isDigit (dropWhile isSpace r2)
                in if num2 = [] then None else Some (num1, op, num2))
             else None)"

fun regexMatch :: "string \<Rightarrow> string \<Rightarrow> (string \<times> char \<times> string) option" where
  "regexMatch ops [] = None"
| "regexMatch ops (c # cs) =
     (case matchAt ops (c # cs) of
        Some m \<Rightarrow> Some m
      | None \<Rightarrow> regexMatch ops cs)"

definition regexTest :: "string \<Rightarrow> string \<Rightarrow> bool" where
  "regexTest ops s = (regexMatch ops s \<noteq> None)"

section \<open>Arbitrary-precision integers\<close>

definition digitValue :: "char \<Rightarrow> int" where
  "digitValue c = int (of_char c) - 48"

definition BigInt :: "string \<Rightarrow> int" where
  \<comment> \<open>\<open>BigInt(s)\<close> on a string of decimal digits\<close>
  "BigInt s = foldl (\<lambda>n c. 10 * n + digitValue c) 0 s"

definition digitChar :: "int \<Rightarrow> char" where
  "digitChar d = char_of (48 + d)"

function decimalDigits :: "int \<Rightarrow> string" where
  \<comment> \<open>the decimal digits of an integer that is not negative\<close>
  "decimalDigits n =
     (if n < 10 then [digitChar n] else decimalDigits (n div 10) @ [digitChar (n mod 10)])"
  by pat_completeness auto
termination
  by (relation "measure nat") auto

declare decimalDigits.simps [simp del]

definition bigIntToString :: "int \<Rightarrow> string" where
  \<comment> \<open>\<open>result.toString()\<close> of a BigInt\<close>
  "bigIntToString i =
     (if i < 0 then CHR ''-'' # decimalDigits (- i) else decimalDigits i)"

definition bigIntDivide :: "int \<Rightarrow> int \<Rightarrow> int" where
  \<comment> \<open>BigInt division truncates towards zero\<close>
  "bigIntDivide a b = sgn a * sgn b * (\<bar>a\<bar> div \<bar>b\<bar>)"

section \<open>Numbers\<close>

text \<open>
  A JavaScript Number is an IEEE 754 double: a finite value (a rational here, \<open>Finite 0\<close>
  being \<open>+0\<close>), the negative zero, an infinity or NaN. Every arithmetic operation computes the
  exact rational result and rounds it to the nearest double, ties to the even significand.
\<close>

datatype number = Finite rat | MinusZero | PlusInfinity | MinusInfinity | NaN

definition pow2 :: "int \<Rightarrow> rat" where
  "pow2 e = (if 0 \<le> e then 2 ^ nat e else 1 / 2 ^ nat (- e))"

definition pow10 :: "int \<Rightarrow> rat" where
  "pow10 e = (if 0 \<le> e then 10 ^ nat e else 1 / 10 ^ nat (- e))"

definition floorLog2 :: "rat \<Rightarrow> int" where
  \<comment> \<open>for \<open>a > 0\<close>, the \<open>e\<close> with \<open>2 ^ e \<le> a < 2 ^ (e + 1)\<close>: the bit lengths of numerator and
     denominator fix it up to one\<close>
  "floorLog2 a =
     (let (p, q) = quotient_of a; d = bitlen p - bitlen q
      in if pow2 d \<le> a then d else d - 1)"

definition roundHalfEven :: "rat \<Rightarrow> int" where
  "roundHalfEven x =
     (let f = \<lfloor>x\<rfloor>; r = x - of_int f
      in if r < 1 / 2 then f else if 1 / 2 < r then f + 1 else if even f then f else f + 1)"

definition roundToDouble :: "rat \<Rightarrow> number" where
  \<comment> \<open>52 fraction bits; the exponent \<open>e\<close> goes from -1022 (below it the subnormal spacing
     stays) to 1023. With \<open>n\<close> the significand in units of \<open>2 ^ (e - 52)\<close>, the rounded
     value reaches \<open>2 ^ 1024\<close>, and the result is an infinity, when \<open>e\<close> is above 1023 or
     \<open>e\<close> is 1023 and \<open>n\<close> is \<open>2 ^ 53\<close>. A result that rounds to zero keeps its sign.\<close>
  "roundToDouble x =
     (if x = 0 then Finite 0
      else
        let a = \<bar>x\<bar>;
            e = max (floorLog2 a) (- 1022);
            n = roundHalfEven (a / pow2 (e - 52))
        in if 1023 < e \<or> (e = 1023 \<and> n = 2 ^ 53) then
             (if x < 0 then MinusInfinity else PlusInfinity)
           else if n = 0 then (if x < 0 then MinusZero else Finite 0)
           else Finite ((if x < 0 then - 1 else 1) * of_int n * pow2 (e - 52)))"

definition isNaN :: "number \<Rightarrow> bool" where
  "isNaN x = (x = NaN)"

definition isInfinite :: "number \<Rightarrow> bool" where
  "isInfinite x = (x = PlusInfinity \<or> x = MinusInfinity)"

definition isZero :: "number \<Rightarrow> bool" where
  "isZero x = (x = Finite 0 \<or> x = MinusZero)"

definition isFiniteNumber :: "number \<Rightarrow> bool" where
  "isFiniteNumber x = (\<not> isNaN x \<and> \<not> isInfinite x)"

fun signBit :: "number \<Rightarrow> bool" where
  "signBit (Finite q) = (q < 0)"
| "signBit MinusZero = True"
| "signBit MinusInfinity = True"
| "signBit PlusInfinity = False"
| "signBit NaN = False"

fun valueOf :: "number \<Rightarrow> rat" where
  \<comment> \<open>the rational value of a finite number\<close>
  "valueOf (Finite q) = q"
| "valueOf _ = 0"

fun numNeg :: "number \<Rightarrow> number" where
  "numNeg (Finite q) = (if q = 0 then MinusZero else Finite (- q))"
| "numNeg MinusZero = Finite 0"
| "numNeg PlusInfinity = MinusInfinity"
| "numNeg MinusInfinity = PlusInfinity"
| "numNeg NaN = NaN"

definition numAdd :: "number \<Rightarrow> number \<Rightarrow> number" where
  "numAdd x y =
     (if isNaN x \<or> isNaN y then NaN
      else if isInfinite x \<and> isInfinite y then (if x = y then x else NaN)
      else if isInfinite x then x
      else if isInfinite y then y
      else if x = MinusZero then y
      else if y = MinusZero then x
      else roundToDouble (valueOf x + valueOf y))"

definition numSub :: "number \<Rightarrow> number \<Rightarrow> number" where
  "numSub x y = numAdd x (numNeg y)"

definition signed :: "bool \<Rightarrow> number \<Rightarrow> number" where
  "signed negative x = (if negative then numNeg x else x)"

definition numMul :: "number \<Rightarrow> number \<Rightarrow> number" where
  "numMul x y =
     (if isNaN x \<or> isNaN y then NaN
      else if (isInfinite x \<and> isZero y) \<or> (isZero x \<and> isInfinite y) then NaN
      else
        let negative = (signBit x \<noteq> signBit y)
        in if isInfinite x \<or> isInfinite y then signed negative PlusInfinity
           else if isZero x \<or> isZero y then signed negative (Finite 0)
           else roundToDouble (valueOf x * valueOf y))"

definition numDiv :: "number \<Rightarrow> number \<Rightarrow> number" where
  "numDiv x y =
     (if isNaN x \<or> isNaN y then NaN
      else if (isInfinite x \<and> isInfinite y) \<or> (isZero x \<and> isZero y) then NaN
      else
        let negative = (signBit x \<noteq> signBit y)
        in if isInfinite x \<or> isZero y then signed negative PlusInfinity
           else if isInfinite y \<or> isZero x then signed negative (Finite 0)
           else roundToDouble (valueOf x / valueOf y))"

fun numLess :: "number \<Rightarrow> number \<Rightarrow> bool" where
  \<comment> \<open>\<open>x < y\<close>: false when either side is NaN, and the two zeros are equal\<close>
  "numLess NaN _ = False"
| "numLess _ NaN = False"
| "numLess PlusInfinity _ = False"
| "numLess _ MinusInfinity = False"
| "numLess MinusInfinity _ = True"
| "numLess _ PlusInfinity = True"
| "numLess x y = (valueOf x < valueOf y)"

fun Math_abs :: "number \<Rightarrow> number" where
  "Math_abs (Finite q) = Finite \<bar>q\<bar>"
| "Math_abs MinusZero = Finite 0"
| "Math_abs PlusInfinity = PlusInfinity"
| "Math_abs MinusInfinity = PlusInfinity"
| "Math_abs NaN = NaN"

fun Math_round :: "number \<Rightarrow> number" where
  \<comment> \<open>the nearest integer, a tie going up; a negative argument that rounds to zero gives
     the negative zero\<close>
  "Math_round (Finite q) =
     (let r = \<lfloor>q + 1 / 2\<rfloor> in if r = 0 \<and> q < 0 then MinusZero else Finite (of_int r))"
| "Math_round x = x"

definition truthyNumber :: "number \<Rightarrow> bool" where
  \<comment> \<open>a Number is falsy when it is a zero or NaN\<close>
  "truthyNumber x = (\<not> isZero x \<and> \<not> isNaN x)"

definition floorLog10 :: "rat \<Rightarrow> int" where
  \<comment> \<open>for \<open>a > 0\<close>, the \<open>e\<close> with \<open>10 ^ e \<le> a < 10 ^ (e + 1)\<close>\<close>
  "floorLog10 a =
     (let (p, q) = quotient_of a;
          d = int (length (decimalDigits p)) - int (length (decimalDigits q))
      in if pow10 d \<le> a then d else d - 1)"

definition exponentialDigits :: "nat \<Rightarrow> rat \<Rightarrow> int \<times> int" where
  \<comment> \<open>for \<open>a > 0\<close>: the \<open>n\<close> and \<open>e\<close> with \<open>10 ^ f \<le> n < 10 ^ (f + 1)\<close> for which
     \<open>n * 10 ^ (e - f)\<close> is nearest to \<open>a\<close>, the larger one on a tie\<close>
  "exponentialDigits f a =
     (let e = floorLog10 a;
          n = \<lfloor>a / pow10 (e - int f) + 1 / 2\<rfloor>
      in if n = 10 ^ (f + 1) then (10 ^ f, e + 1) else (n, e))"

definition exponentialString :: "nat \<Rightarrow> int \<Rightarrow> int \<Rightarrow> string" where
  "exponentialString f n e =
     (let m = (if n = 0 then replicate (f + 1) CHR ''0'' else decimalDigits n);
          m' = (if f \<noteq> 0 then hd m # CHR ''.'' # tl m else m)
      in m' @ ''e'' @ (if e < 0 then ''-'' else ''+'') @ decimalDigits \<bar>e\<bar>)"

definition toExponential :: "nat \<Rightarrow> number \<Rightarrow> string" where
  \<comment> \<open>\<open>x.toExponential(f)\<close>; a zero of either sign is written without a sign\<close>
  "toExponential f x =
     (case x of
        NaN \<Rightarrow> ''NaN''
      | PlusInfinity \<Rightarrow> ''Infinity''
      | MinusInfinity \<Rightarrow> ''-Infinity''
      | MinusZero \<Rightarrow> exponentialString f 0 0
      | Finite q \<Rightarrow>
          if q = 0 then exponentialString f 0 0
          else
            (let (n, e) = exponentialDigits f \<bar>q\<bar>
             in (if q < 0 then ''-'' else []) @ exponentialString f n e))"

section \<open>The interpreter primitive\<close>

text \<open>
  \<open>executeMathExpression\<close> hands the text \<open>"use strict"; return (<cleaned>)\<close> to the
  \<open>Function\<close> constructor and calls the result. The engine is not part of the repository.
  Its behaviour is modelled on the arithmetic fragment of the language: decimal literals,
  the binary operators \<open>+ - * /\<close>, unary minus and plus, and parentheses. On every other
  program text the model asks a parameter, \<open>runProgram\<close>, which returns the message
  of the exception thrown or the value returned; nothing is assumed about it. The text a
  Number is converted to inside a template literal is the second parameter.
\<close>

datatype jsvalue =
    Number number
  | String string
  | Other string  \<comment> \<open>any other value, carried as the text \<open>String(v)\<close> gives for it\<close>

record host =
  runProgram :: "string \<Rightarrow> string + jsvalue"
  numberToString :: "number \<Rightarrow> string"

datatype token = TNumber number | TPlus | TMinus | TStar | TSlash | TOpen | TClose

definition scanNumber :: "string \<Rightarrow> string \<times> string \<times> string" where
  \<comment> \<open>the integer digits, the fraction digits and the rest of the text after a decimal literal\<close>
  "scanNumber s =
     (let ip = takeWhile isDigit s; r = dropWhile isDigit s
      in case r of
           [] \<Rightarrow> (ip, [], [])
         | c # r' \<Rightarrow>
             if c = CHR ''.'' then (ip, takeWhile isDigit r', dropWhile isDigit r')
             else (ip, [], r))"

definition decimalValue :: "string \<Rightarrow> string \<Rightarrow> rat" where
  "decimalValue ip fp = of_int (BigInt ip) + of_int (BigInt fp) / 10 ^ length fp"

lemma scanNumber_rest:
  assumes "scanNumber s = (ip, fp, rest)"
  shows "length rest \<le> length (dropWhile isDigit s)"
proof (cases "dropWhile isDigit s")
  case Nil
  with assms show ?thesis by (simp add: scanNumber_def)
next
  case (Cons d r')
  have "length (dropWhile isDigit r') \<le> length r'" by (rule length_dropWhile_le)
  then have "length (dropWhile isDigit r') \<le> Suc (length r')" by simp
  with assms Cons show ?thesis
    by (cases "d = CHR ''.''") (simp_all add: scanNumber_def)
qed

lemma scanNumber_shorter:
  assumes "isDigit c \<or> c = CHR ''.''" and "scanNumber (c # cs) = (ip, fp, rest)"
  shows "length rest < Suc (length cs)"
proof (cases "isDigit c")
  case True
  have "length (dropWhile isDigit cs) \<le> length cs" by (rule length_dropWhile_le)
  with True scanNumber_rest [OF assms(2)] show ?thesis by simp
next
  case False
  with assms(1) have c: "c = CHR ''.''" by simp
  have "length (dropWhile isDigit cs) \<le> length cs" by (rule length_dropWhile_le)
  with False c assms(2) show ?thesis
    by (simp add: scanNumber_def)
qed

lemma scanNumber_digit:
  "(ip, fp, rest) = scanNumber (c # cs) \<Longrightarrow> isDigit c \<Longrightarrow> length rest < Suc (length cs)"
  using scanNumber_shorter [of c cs ip fp rest] by simp

lemma scanNumber_dot:
  "(ip, fp, rest) = scanNumber (CHR ''.'' # cs) \<Longrightarrow> length rest < Suc (length cs)"
  using scanNumber_shorter [of "CHR ''.''" cs ip fp rest] by simp

text \<open>
  The tokens of the fragment. A text goes to \<open>runProgram\<close> (the result \<open>None\<close> here) as
  soon as it holds a character outside the fragment, one of the two-character tokens
  \<open>++ -- ** // /*\<close>, or a literal strict mode refuses (a leading zero before another digit).
\<close>

function tokenize :: "string \<Rightarrow> token list option" where
  "tokenize [] = Some []"
| "tokenize (c # cs) =
     (if isDigit c \<or> c = CHR ''.'' then
        (case scanNumber (c # cs) of
           (ip, fp, rest) \<Rightarrow>
             if (ip = [] \<and> fp = []) \<or> (1 < length ip \<and> hd ip = CHR ''0'') then None
             else map_option (Cons (TNumber (roundToDouble (decimalValue ip fp)))) (tokenize rest))
      else if c = CHR ''+'' then
        (if cs \<noteq> [] \<and> hd cs = CHR ''+'' then None else map_option (Cons TPlus) (tokenize cs))
      else if c = CHR ''-'' then
        (if cs \<noteq> [] \<and> hd cs = CHR ''-'' then None else map_option (Cons TMinus) (tokenize cs))
      else if c = CHR ''*'' then
        (if cs \<noteq> [] \<and> hd cs = CHR ''*'' then None else map_option (Cons TStar) (tokenize cs))
      else if c = CHR ''/'' then
        (if cs \<noteq> [] \<and> (hd cs = CHR ''/'' \<or> hd cs = CHR ''*'') then None
         else map_option (Cons TSlash) (tokenize cs))
      else if c = CHR ''('' then map_option (Cons TOpen) (tokenize cs)
      else if c = CHR '')'' then map_option (Cons TClose) (tokenize cs)
      else None)"
  by pat_completeness auto
termination
  by (relation "measure length") (auto dest: scanNumber_digit scanNumber_dot)

declare tokenize.simps [simp del]

text \<open>
  The grammar, with the precedence and the left associativity of the language:
  an additive expression is a chain of multiplicative ones, a multiplicative expression a
  chain of unary ones, a unary expression a sign before a unary expression or a primary
  one, and a primary expression a literal or an additive expression in parentheses. Every
  call takes one unit of fuel; when the fuel runs out the text goes to \<open>runProgram\<close>.
\<close>

fun parseAdditive :: "nat \<Rightarrow> token list \<Rightarrow> (number \<times> token list) option"
  and additiveRest :: "nat \<Rightarrow> number \<Rightarrow> token list \<Rightarrow> (number \<times> token list) option"
  and parseMultiplicative :: "nat \<Rightarrow> token list \<Rightarrow> (number \<times> token list) option"
  and multiplicativeRest :: "nat \<Rightarrow> number \<Rightarrow> token list \<Rightarrow> (number \<times> token list) option"
  and parseUnary :: "nat \<Rightarrow> token list \<Rightarrow> (number \<times> token list) option"
where
  "parseAdditive 0 ts = None"
| "parseAdditive (Suc n) ts =
     (case parseMultiplicative n ts of
        None \<Rightarrow> None
      | Some (v, r) \<Rightarrow> additiveRest n v r)"
| "additiveRest 0 v ts = None"
| "additiveRest (Suc n) v ts =
     (case ts of
        TPlus # r \<Rightarrow>
          (case parseMultiplicative n r of
             None \<Rightarrow> None
           | Some (w, r') \<Rightarrow> additiveRest n (numAdd v w) r')
      | TMinus # r \<Rightarrow>
          (case parseMultiplicative n r of
             None \<Rightarrow> None
           | Some (w, r') \<Rightarrow> additiveRest n (numSub v w) r')
      | _ \<Rightarrow> Some (v, ts))"
| "parseMultiplicative 0 ts = None"
| "parseMultiplicative (Suc n) ts =
     (case parseUnary n ts of
        None \<Rightarrow> None
      | Some (v, r) \<Rightarrow> multiplicativeRest n v r)"
| "multiplicativeRest 0 v ts = None"
| "multiplicativeRest (Suc n) v ts =
     (case ts of
        TStar # r \<Rightarrow>
          (case parseUnary n r of
             None \<Rightarrow> None
           | Some (w, r') \<Rightarrow> multiplicativeRest n (numMul v w) r')
      | TSlash # r \<Rightarrow>
          (case parseUnary n r of
             None \<Rightarrow> None
           | Some (w, r') \<Rightarrow> multiplicativeRest n (numDiv v w) r')
      | _ \<Rightarrow> Some (v, ts))"
| "parseUnary 0 ts = None"
| "parseUnary (Suc n) ts =
     (case ts of
        TMinus # r \<Rightarrow> map_option (\<lambda>(v, r'). (numNeg v, r')) (parseUnary n r)
      | TPlus # r \<Rightarrow> parseUnary n r
      | TNumber x # r \<Rightarrow> Some (x, r)
      | TOpen # r \<Rightarrow>
          (case parseAdditive n r of
             Some (v, TClose # r') \<Rightarrow> Some (v, r')
           | _ \<Rightarrow> None)
      | _ \<Rightarrow> None)"

definition arithmeticValue :: "string \<Rightarrow> number option" where
  \<comment> \<open>the value of an expression of the fragment; \<open>None\<close> outside it\<close>
  "arithmeticValue e =
     (case tokenize e of
        None \<Rightarrow> None
      | Some ts \<Rightarrow>
          (case parseAdditive (4 * length ts + 4) ts of
             Some (v, []) \<Rightarrow> Some v
           | _ \<Rightarrow> None))"

definition stripPrefix :: "string \<Rightarrow> string \<Rightarrow> string option" where
  "stripPrefix p s = (if take (length p) s = p then Some (drop (length p) s) else None)"

definition functionBody :: "string \<Rightarrow> string" where
  \<comment> \<open>the template literal \<open>`"use strict"; return (${cleaned})`\<close>\<close>
  "functionBody cleaned =
     [CHR 0x22] @ ''use strict'' @ [CHR 0x22] @ ''; return ('' @ cleaned @ '')''"

definition callFunction :: "host \<Rightarrow> string \<Rightarrow> string + jsvalue" where
  \<comment> \<open>\<open>Function(body)()\<close>: the message of the exception thrown, or the value returned\<close>
  "callFunction h body =
     (case stripPrefix ([CHR 0x22] @ ''use strict'' @ [CHR 0x22] @ ''; return '') body of
        None \<Rightarrow> runProgram h body
      | Some e \<Rightarrow>
          (case arithmeticValue e of
             None \<Rightarrow> runProgram h body
           | Some v \<Rightarrow> Inr (Number v)))"

section \<open>PALInterpreter\<close>

datatype evaluation =
    Success jsvalue jsvalue  \<comment> \<open>\<open>{success: true, result, formatted}\<close>\<close>
  | Failure string  \<comment> \<open>\<open>{success: false, error}\<close>\<close>

definition divisionByZeroMessage :: string where
  \<comment> \<open>the message of the RangeError a BigInt division by zero throws\<close>
  "divisionByZeroMessage = ''Division by zero''"

definition evaluateBigInt :: "string \<Rightarrow> evaluation" where
  "evaluateBigInt expr =
     (case regexMatch ''+-*/'' expr of
        None \<Rightarrow> Failure ''Complex expression not supported''
      | Some (num1, op, num2) \<Rightarrow>
          (let a = BigInt num1; b = BigInt num2;
               done = (\<lambda>result. Success (String (bigIntToString result))
                                        (String (bigIntToString result)))
           in if op = CHR ''+'' then done (a + b)
              else if op = CHR ''-'' then done (a - b)
              else if op = CHR ''*'' then done (a * b)
              else if op = CHR ''/'' then
                (if b = 0 then Failure divisionByZeroMessage else done (bigIntDivide a b))
              else Failure (''Unsupported operator: '' @ [op])))"

definition formatNumber :: "jsvalue \<Rightarrow> jsvalue" where
  "formatNumber num =
     (case num of
        String s \<Rightarrow> String s
      | Other s \<Rightarrow> String s
      | Number x \<Rightarrow>
          if numLess (Math_abs x) (roundToDouble (1 / 10000))
             \<or> numLess (Finite 10000000000) (Math_abs x)
          then String (toExponential 4 x)
          else Number (numDiv (Math_round (numMul x (Finite 1000000))) (Finite 1000000)))"

definition executeMathExpression :: "host \<Rightarrow> string \<Rightarrow> evaluation" where
  "executeMathExpression h expression =
     (let cleaned = removeSpaces (trim expression)
      in if hasLargeNumbers cleaned then evaluateBigInt cleaned
         else case callFunction h (functionBody cleaned) of
                Inl message \<Rightarrow> Failure message
              | Inr result \<Rightarrow> Success result (formatNumber result))"

section \<open>OllamaService\<close>

record service =
  baseUrl :: string
  model :: string

definition ollamaService :: service where
  \<comment> \<open>the constructor\<close>
  "ollamaService = \<lparr>baseUrl = ''http://localhost:11434'', model = ''llama3''\<rparr>"

text \<open>
  The \<open>options\<close> argument of \<open>generate\<close>; a field the caller leaves out is \<open>None\<close>, and an
  absent \<open>modelOptions\<close> is the empty object.
\<close>

record generateOptions =
  optModel :: "string option"
  optTemperature :: "number option"
  modelOptions :: "string \<rightharpoonup> jsvalue"

definition noOptions :: generateOptions where
  "noOptions = \<lparr>optModel = None, optTemperature = None, modelOptions = Map.empty\<rparr>"

record request =
  reqModel :: string
  reqPrompt :: string
  reqStream :: bool
  reqOptions :: "string \<rightharpoonup> jsvalue"

definition requestBody :: "service \<Rightarrow> string \<Rightarrow> generateOptions \<Rightarrow> request" where
  \<comment> \<open>\<open>a || b\<close> is \<open>b\<close> when \<open>a\<close> is absent, the empty string, a zero or NaN; the spread of
     \<open>modelOptions\<close> comes after \<open>temperature\<close> and overrides it\<close>
  "requestBody this prompt options =
     \<lparr>reqModel =
        (case optModel options of
           None \<Rightarrow> model this
         | Some m \<Rightarrow> if m \<noteq> [] then m else model this),
      reqPrompt = prompt,
      reqStream = False,
      reqOptions =
        [''temperature'' \<mapsto>
           Number (case optTemperature options of
                     None \<Rightarrow> roundToDouble (7 / 10)
                   | Some t \<Rightarrow> if truthyNumber t then t else roundToDouble (7 / 10))]
        ++ modelOptions options\<rparr>"

text \<open>
  The backend is a parameter: \<open>fetch url body\<close> is the message of a network failure, or the
  response with its \<open>ok\<close> flag, its status and what \<open>response.json()\<close> gives (the message of
  its failure, or the \<open>response\<close> field of the body).
\<close>

record response =
  ok :: bool
  httpStatus :: nat
  json :: "string + string"

type_synonym backend = "string \<Rightarrow> request \<Rightarrow> string + response"

definition generate :: "backend \<Rightarrow> service \<Rightarrow> string \<Rightarrow> generateOptions \<Rightarrow> string + string" where
  "generate fetch this prompt options =
     (case fetch (baseUrl this @ ''/api/generate'') (requestBody this prompt options) of
        Inl failure \<Rightarrow> Inl failure
      | Inr r \<Rightarrow>
          if \<not> ok r then Inl (''HTTP error! status: '' @ decimalDigits (int (httpStatus r)))
          else json r)"

definition isUpperCase :: "char \<Rightarrow> bool" where
  "isUpperCase c =
     (let n = (of_char c :: nat)
      in (65 \<le> n \<and> n \<le> 90) \<or> (192 \<le> n \<and> n \<le> 222 \<and> n \<noteq> 215))"

definition toLowerCase :: "string \<Rightarrow> string" where
  "toLowerCase s = map (\<lambda>c. if isUpperCase c then char_of (of_char c + (32 :: nat)) else c) s"

definition startsWith :: "string \<Rightarrow> string \<Rightarrow> bool" where
  "startsWith s k = (take (length k) s = k)"

fun stringIncludes :: "string \<Rightarrow> string \<Rightarrow> bool" where
  "stringIncludes [] k = (k = [])"
| "stringIncludes (c # cs) k = (startsWith (c # cs) k \<or> stringIncludes cs k)"

definition mathKeywords :: "string list" where
  "mathKeywords =
     [''calculate'', ''compute'', ''solve'', ''what is'', ''how much'',
      ''sum'', ''difference'', ''product'', ''quotient'', ''average'',
      ''percentage'', ''percent'', ''add'', ''subtract'', ''multiply'', ''divide'',
      ''plus'', ''minus'', ''times'']"

definition isMathQuery :: "string \<Rightarrow> bool" where
  "isMathQuery query =
     (let lowerQuery = toLowerCase query;
          hasKeyword = list_ex (\<lambda>keyword. stringIncludes lowerQuery keyword) mathKeywords;
          hasArithmetic = regexTest ''+-*/^%'' query
      in hasKeyword \<or> hasArithmetic)"

subsection \<open>The three-stage pipeline\<close>

datatype stageStatus = Running | Complete | Error

datatype stageInput =
    ExpressionInput string  \<comment> \<open>stage 2: the cleaned expression\<close>
  | FormatInput string string jsvalue  \<comment> \<open>stage 3: \<open>{question, expression, result}\<close>\<close>

text \<open>
  The fields \<open>input\<close>, \<open>output\<close> and \<open>error\<close> of a stage object are \<open>stage_input\<close>,
  \<open>stage_output\<close> and \<open>stage_error\<close>; a field that was never assigned is \<open>None\<close>.
\<close>

record stage =
  stage :: nat
  name :: string
  status :: stageStatus
  stage_input :: "stageInput option"
  stage_output :: "jsvalue option"
  stage_error :: "string option"

record pipelineRun =
  stages :: "stage list"
  success :: bool
  finalAnswer :: "string option"

definition sanitize :: "string \<Rightarrow> string" where
  \<comment> \<open>\<open>replace(/[^0-9+\-*/().]/g, '')\<close>\<close>
  "sanitize s = filter (\<lambda>c. c \<in> set ''0123456789+-*/().'') s"

definition quote :: string where
  "quote = [CHR 0x22]"

definition newline :: string where
  "newline = [CHR 0x0A]"

definition arrow :: string where
  \<comment> \<open>the rightwards arrow of the examples, as its three UTF-8 bytes\<close>
  "arrow = [CHR 0xE2, CHR 0x86, CHR 0x92]"

definition extractPrompt :: "string \<Rightarrow> string" where
  "extractPrompt userQuery =
     ''Extract the mathematical expression from this question. Return ONLY the math expression with numbers and operators, nothing else.''
     @ newline @ newline
     @ ''Question: '' @ quote @ userQuery @ quote @ newline @ newline
     @ ''Examples:'' @ newline
     @ ''- '' @ quote @ ''how much is 42987429742+43434343?'' @ quote @ '' '' @ arrow @ '' ''
       @ quote @ ''42987429742+43434343'' @ quote @ newline
     @ ''- '' @ quote @ ''what is 25% of 480?'' @ quote @ '' '' @ arrow @ '' ''
       @ quote @ ''480*0.25'' @ quote @ newline
     @ ''- '' @ quote @ ''calculate 100 minus 37'' @ quote @ '' '' @ arrow @ '' ''
       @ quote @ ''100-37'' @ quote @ newline @ newline
     @ ''Expression:''"

definition toText :: "host \<Rightarrow> jsvalue \<Rightarrow> string" where
  \<comment> \<open>the text of a value inside a template literal\<close>
  "toText h v = (case v of String s \<Rightarrow> s | Number x \<Rightarrow> numberToString h x | Other s \<Rightarrow> s)"

definition formatPrompt :: "host \<Rightarrow> string \<Rightarrow> string \<Rightarrow> jsvalue \<Rightarrow> string" where
  "formatPrompt h userQuery cleanedExpression formatted =
     ''Format this math solution into a friendly response.'' @ newline @ newline
     @ ''Question: '' @ quote @ userQuery @ quote @ newline
     @ ''Expression: '' @ cleanedExpression @ newline
     @ ''Result: '' @ toText h formatted @ newline @ newline
     @ ''Provide a natural, conversational response that includes the answer. Be concise.''"

text \<open>
  \<open>solveWithPipeline\<close> is an async function: the result is \<open>Inl\<close> the message of the error it
  rejects with (a failure of \<open>generate\<close>, which it does not catch), or \<open>Inr\<close> the run it
  resolves to. The \<open>stages\<close> array is built up by \<open>push\<close> and updated by index.
\<close>

definition solveWithPipeline ::
  "backend \<Rightarrow> host \<Rightarrow> service \<Rightarrow> string \<Rightarrow> string + pipelineRun" where
  "solveWithPipeline fetch h this userQuery =
     (let stages0 =
            [\<lparr>stage = 1, name = ''LLM: Extract Math Expression'', status = Running,
              stage_input = None, stage_output = None, stage_error = None\<rparr>]
      in case generate fetch this (extractPrompt userQuery)
                (noOptions\<lparr>optTemperature := Some (roundToDouble (1 / 10))\<rparr>) of
           Inl failure \<Rightarrow> Inl failure
         | Inr mathExpression \<Rightarrow>
             (let cleanedExpression = sanitize (trim mathExpression);
                  stages1 = stages0[0 := (stages0 ! 0)
                              \<lparr>status := Complete, stage_output := Some (String cleanedExpression)\<rparr>];
                  stages2 = stages1 @
                    [\<lparr>stage = 2, name = ''PAL: Execute Math'', status = Running,
                      stage_input = Some (ExpressionInput cleanedExpression),
                      stage_output = None, stage_error = None\<rparr>]
              in case executeMathExpression h cleanedExpression of
                   Failure message \<Rightarrow>
                     Inr \<lparr>stages = stages2[1 := (stages2 ! 1)
                                       \<lparr>status := Error, stage_error := Some message\<rparr>],
                          success = False,
                          finalAnswer = None\<rparr>
                 | Success result formatted \<Rightarrow>
                     (let stages3 = stages2[1 := (stages2 ! 1)
                                       \<lparr>status := Complete, stage_output := Some formatted\<rparr>];
                          stages4 = stages3 @
                            [\<lparr>stage = 3, name = ''LLM: Format Response'', status = Running,
                              stage_input = Some (FormatInput userQuery cleanedExpression formatted),
                              stage_output = None, stage_error = None\<rparr>]
                      in case generate fetch this
                                (formatPrompt h userQuery cleanedExpression formatted)
                                (noOptions\<lparr>optTemperature := Some (roundToDouble (1 / 2))\<rparr>) of
                           Inl failure \<Rightarrow> Inl failure
                         | Inr finalResponse \<Rightarrow>
                             Inr \<lparr>stages = stages4[2 := (stages4 ! 2)
                                     \<lparr>status := Complete,
                                      stage_output := Some (String (trim finalResponse))\<rparr>],
                                  success = True,
                                  finalAnswer = Some (trim finalResponse)\<rparr>)))"

section \<open>The patterns in the words of the specification\<close>

text \<open>
  The numeric-operator pattern as the specification words it: somewhere in the text, two
  runs of digits separated by one operator of the class, with optional white space around
  the operator.
\<close>

definition digitRunsAroundOperator :: "string \<Rightarrow> string \<Rightarrow> bool" where
  "digitRunsAroundOperator ops s =
     (\<exists>pre d1 w1 op w2 d2 post.
        s = pre @ d1 @ w1 @ [op] @ w2 @ d2 @ post
        \<and> d1 \<noteq> [] \<and> (\<forall>c \<in> set d1. isDigit c)
        \<and> (\<forall>c \<in> set w1. isSpace c)
        \<and> op \<in> set ops
        \<and> (\<forall>c \<in> set w2. isSpace c)
        \<and> d2 \<noteq> [] \<and> (\<forall>c \<in> set d2. isDigit c))"

definition specKeywords :: "string list" where
  \<comment> \<open>the keyword set the specification lists\<close>
  "specKeywords =
     [''calculate'', ''compute'', ''solve'', ''what is'', ''how much'', ''sum'',
      ''difference'', ''product'', ''quotient'', ''average'', ''percentage'', ''percent'',
      ''add'', ''subtract'', ''multiply'', ''divide'', ''plus'', ''minus'', ''times'']"

definition containsKeyword :: "string \<Rightarrow> bool" where
  \<comment> \<open>the lowercased text contains one of the keywords\<close>
  "containsKeyword text =
     (\<exists>keyword \<in> set specKeywords. \<exists>pre post. toLowerCase text = pre @ keyword @ post)"

section \<open>Inputs for the concrete examples\<close>

text \<open>
  The theorems below hold for every host and every backend. Where an example needs a
  particular one, it takes an engine that throws on every program outside the arithmetic
  fragment, and a backend that answers every request with the same text.
\<close>

definition sampleHost :: host where
  "sampleHost =
     \<lparr>runProgram = (\<lambda>body. Inl ''Unexpected token''),
      numberToString = (\<lambda>x. toExponential 16 x)\<rparr>"

definition replyingBackend :: "string \<Rightarrow> backend" where
  "replyingBackend reply = (\<lambda>url body. Inr \<lparr>ok = True, httpStatus = 200, json = Inr reply\<rparr>)"

section \<open>Properties of the string functions\<close>

lemma digit_not_space: "isDigit c \<Longrightarrow> \<not> isSpace c"
  by (auto simp: isDigit_def isSpace_def)

lemma filter_dropWhile_disjoint:
  assumes "\<And>x. Q x \<Longrightarrow> \<not> P x"
  shows "filter P (dropWhile Q xs) = filter P xs"
  using assms by (induction xs) auto

lemma filter_trim:
  assumes "\<And>x. isSpace x \<Longrightarrow> \<not> P x"
  shows "filter P (trim s) = filter P s"
proof -
  have "filter P (trim s) = rev (filter P (dropWhile isSpace (rev (dropWhile isSpace s))))"
    by (simp add: trim_def rev_filter)
  also have "\<dots> = rev (filter P (rev (dropWhile isSpace s)))"
    using assms by (simp add: filter_dropWhile_disjoint)
  also have "\<dots> = filter P (dropWhile isSpace s)"
    by (simp add: rev_filter)
  also have "\<dots> = filter P s"
    using assms by (simp add: filter_dropWhile_disjoint)
  finally show ?thesis .
qed

lemma removeSpaces_trim: "removeSpaces (trim s) = removeSpaces s"
  unfolding removeSpaces_def by (rule filter_trim) simp

lemma sanitize_trim: "sanitize (trim s) = sanitize s"
  unfolding sanitize_def by (rule filter_trim) (auto simp: isSpace_def)

lemma removeSpaces_id:
  assumes "\<forall>c \<in> set s. \<not> isSpace c"
  shows "removeSpaces (trim s) = s"
proof -
  have "removeSpaces s = s"
    using assms by (simp add: removeSpaces_def filter_id_conv)
  then show ?thesis by (simp only: removeSpaces_trim)
qed

text \<open>
  \<open>hasLargeNumbers\<close> is the test of \<open>/\d{10,}/\<close>: the text holds ten or more digits in a row.
\<close>

lemma hasLargeNumbers_run:
  assumes "hasLargeNumbers s"
  shows "\<exists>pre run post. s = pre @ run @ post \<and> 10 \<le> length run \<and> (\<forall>c \<in> set run. isDigit c)"
  using assms
proof (induction s)
  case Nil
  then show ?case by simp
next
  case (Cons c cs)
  show ?case
  proof (cases "10 \<le> length (takeWhile isDigit (c # cs))")
    case True
    have "c # cs = [] @ takeWhile isDigit (c # cs) @ dropWhile isDigit (c # cs)"
      by simp
    moreover have "\<forall>d \<in> set (takeWhile isDigit (c # cs)). isDigit d"
      by (meson set_takeWhileD)
    ultimately show ?thesis using True by blast
  next
    case False
    with Cons.prems have "hasLargeNumbers cs" by simp
    from Cons.IH [OF this] obtain pre run post
      where "cs = pre @ run @ post" "10 \<le> length run" "\<forall>c \<in> set run. isDigit c"
      by blast
    then have "c # cs = (c # pre) @ run @ post" by simp
    with \<open>10 \<le> length run\<close> \<open>\<forall>c \<in> set run. isDigit c\<close> show ?thesis by blast
  qed
qed

lemma run_hasLargeNumbers:
  assumes "10 \<le> length run" and "\<forall>c \<in> set run. isDigit c"
  shows "hasLargeNumbers (pre @ run @ post)"
proof (induction pre)
  case Nil
  from assms(1) obtain d ds where run: "run = d # ds" by (cases run) auto
  have "takeWhile isDigit (run @ post) = run @ takeWhile isDigit post"
    using assms(2) by simp
  then have "10 \<le> length (takeWhile isDigit (run @ post))"
    using assms(1) by simp
  then show ?case using run by simp
next
  case (Cons c pre)
  then show ?case by simp
qed

lemma hasLargeNumbers_iff:
  "hasLargeNumbers s \<longleftrightarrow>
     (\<exists>pre run post. s = pre @ run @ post \<and> 10 \<le> length run \<and> (\<forall>c \<in> set run. isDigit c))"
  using hasLargeNumbers_run run_hasLargeNumbers by blast

lemma hasLargeNumbers_removeSpaces:
  assumes "hasLargeNumbers s"
  shows "hasLargeNumbers (removeSpaces s)"
proof -
  from hasLargeNumbers_run [OF assms] obtain pre run post
    where s: "s = pre @ run @ post" and len: "10 \<le> length run"
      and dig: "\<forall>c \<in> set run. isDigit c"
    by blast
  have "filter (\<lambda>c. \<not> isSpace c) run = run"
    using dig by (simp add: digit_not_space filter_id_conv)
  then have "removeSpaces s = removeSpaces pre @ run @ removeSpaces post"
    by (simp add: s removeSpaces_def)
  with len dig show ?thesis by (simp add: run_hasLargeNumbers)
qed

text \<open>\<open>stringIncludes s k\<close> is \<open>s.includes(k)\<close>: \<open>k\<close> occurs in \<open>s\<close>.\<close>

lemma startsWith_iff: "startsWith s k \<longleftrightarrow> (\<exists>post. s = k @ post)"
proof
  assume "startsWith s k"
  then have "s = k @ drop (length k) s"
    by (metis startsWith_def append_take_drop_id)
  then show "\<exists>post. s = k @ post" ..
next
  assume "\<exists>post. s = k @ post"
  then show "startsWith s k" by (auto simp: startsWith_def)
qed

lemma stringIncludes_iff: "stringIncludes s k \<longleftrightarrow> (\<exists>pre post. s = pre @ k @ post)"
proof (induction s)
  case Nil
  then show ?case by simp
next
  case (Cons c cs)
  show ?case
  proof
    assume "stringIncludes (c # cs) k"
    then consider "startsWith (c # cs) k" | "stringIncludes cs k" by auto
    then show "\<exists>pre post. c # cs = pre @ k @ post"
    proof cases
      case 1
      then obtain post where "c # cs = k @ post" by (auto simp: startsWith_iff)
      then have "c # cs = [] @ k @ post" by simp
      then show ?thesis by blast
    next
      case 2
      with Cons.IH obtain pre post where "cs = pre @ k @ post" by blast
      then have "c # cs = (c # pre) @ k @ post" by simp
      then show ?thesis by blast
    qed
  next
    assume "\<exists>pre post. c # cs = pre @ k @ post"
    then obtain pre post where eq: "c # cs = pre @ k @ post" by blast
    show "stringIncludes (c # cs) k"
    proof (cases pre)
      case Nil
      with eq have "startsWith (c # cs) k" by (auto simp: startsWith_iff)
      then show ?thesis by simp
    next
      case (Cons p ps)
      with eq have "cs = ps @ k @ post" by simp
      with Cons.IH have "stringIncludes cs k" by blast
      then show ?thesis by simp
    qed
  qed
qed

text \<open>
  The matcher of the two operator patterns agrees with the pattern in words, for an operator
  class that holds neither a digit nor a white space.
\<close>

lemma matchAt_sound:
  assumes "matchAt ops s = Some (n1, op, n2)"
  shows "\<exists>w1 w2 post.
           s = n1 @ w1 @ [op] @ w2 @ n2 @ post
           \<and> n1 \<noteq> [] \<and> (\<forall>c \<in> set n1. isDigit c)
           \<and> (\<forall>c \<in> set w1. isSpace c)
           \<and> op \<in> set ops
           \<and> (\<forall>c \<in> set w2. isSpace c)
           \<and> n2 \<noteq> [] \<and> (\<forall>c \<in> set n2. isDigit c)"
proof -
  define r0 where "r0 = dropWhile isDigit s"
  define r1 where "r1 = dropWhile isSpace r0"
  from assms have n1: "n1 = takeWhile isDigit s" and n1_ne: "n1 \<noteq> []"
    by (auto simp: matchAt_def Let_def split: if_splits list.splits)
  from assms obtain r2 where r1: "r1 = op # r2" and op: "op \<in> set ops"
    and n2: "n2 = takeWhile isDigit (dropWhile isSpace r2)" and n2_ne: "n2 \<noteq> []"
    by (auto simp: matchAt_def Let_def r0_def r1_def split: if_splits list.splits)
  define w1 where "w1 = takeWhile isSpace r0"
  define w2 where "w2 = takeWhile isSpace r2"
  define post where "post = dropWhile isDigit (dropWhile isSpace r2)"
  have "s = n1 @ r0" by (simp add: n1 r0_def)
  moreover have "r0 = w1 @ r1" by (simp add: w1_def r1_def)
  moreover have "r2 = w2 @ dropWhile isSpace r2" by (simp add: w2_def)
  moreover have "dropWhile isSpace r2 = n2 @ post" by (simp add: n2 post_def)
  ultimately have "s = n1 @ w1 @ [op] @ w2 @ n2 @ post"
    using r1 by simp
  moreover have "\<forall>c \<in> set n1. isDigit c" unfolding n1 by (meson set_takeWhileD)
  moreover have "\<forall>c \<in> set w1. isSpace c" unfolding w1_def by (meson set_takeWhileD)
  moreover have "\<forall>c \<in> set w2. isSpace c" unfolding w2_def by (meson set_takeWhileD)
  moreover have "\<forall>c \<in> set n2. isDigit c" unfolding n2 by (meson set_takeWhileD)
  ultimately show ?thesis using n1_ne n2_ne op by blast
qed

lemma takeWhile_digit_spaces:
  assumes "\<forall>c \<in> set w. isSpace c" and "\<not> isDigit x"
  shows "takeWhile isDigit (w @ x # rest) = []"
proof (cases w)
  case Nil
  with assms(2) show ?thesis by simp
next
  case (Cons a as)
  with assms(1) have "isSpace a" by simp
  then have "\<not> isDigit a" using digit_not_space by blast
  with Cons show ?thesis by simp
qed

lemma matchAt_complete:
  assumes ops: "\<forall>c \<in> set ops. \<not> isDigit c \<and> \<not> isSpace c"
    and d1: "d1 \<noteq> []" "\<forall>c \<in> set d1. isDigit c"
    and w1: "\<forall>c \<in> set w1. isSpace c"
    and op: "op \<in> set ops"
    and w2: "\<forall>c \<in> set w2. isSpace c"
    and d2: "d2 \<noteq> []" "\<forall>c \<in> set d2. isDigit c"
  shows "matchAt ops (d1 @ w1 @ [op] @ w2 @ d2 @ post) \<noteq> None"
proof -
  let ?s = "d1 @ w1 @ op # w2 @ d2 @ post"
  from ops op have op_nd: "\<not> isDigit op" and op_ns: "\<not> isSpace op" by auto
  from d2 obtain x xs where d2_eq: "d2 = x # xs" and x: "isDigit x"
    by (cases d2) auto
  have x_ns: "\<not> isSpace x" using x by (rule digit_not_space)
  have t0: "takeWhile isDigit (w1 @ op # w2 @ d2 @ post) = []"
    using w1 op_nd by (rule takeWhile_digit_spaces)
  have take1: "takeWhile isDigit ?s = d1"
    using d1(2) t0 by simp
  have "dropWhile isDigit (w1 @ op # w2 @ d2 @ post) = w1 @ op # w2 @ d2 @ post"
    using t0 by (metis append_Nil takeWhile_dropWhile_id)
  then have drop1: "dropWhile isDigit ?s = w1 @ op # w2 @ d2 @ post"
    using d1(2) by simp
  have drop2: "dropWhile isSpace (w1 @ op # w2 @ d2 @ post) = op # w2 @ d2 @ post"
    using w1 op_ns by simp
  have drop3: "dropWhile isSpace (w2 @ d2 @ post) = d2 @ post"
    using w2 x_ns by (simp add: d2_eq)
  have take2: "takeWhile isDigit (d2 @ post) = d2 @ takeWhile isDigit post"
    using d2(2) by simp
  show ?thesis
    using d1(1) d2(1) op
    by (simp add: matchAt_def Let_def take1 drop1 drop2 drop3 take2)
qed

lemma regexMatch_sound:
  assumes "regexMatch ops s = Some (n1, op, n2)"
  shows "\<exists>pre w1 w2 post.
           s = pre @ n1 @ w1 @ [op] @ w2 @ n2 @ post
           \<and> n1 \<noteq> [] \<and> (\<forall>c \<in> set n1. isDigit c)
           \<and> (\<forall>c \<in> set w1. isSpace c)
           \<and> op \<in> set ops
           \<and> (\<forall>c \<in> set w2. isSpace c)
           \<and> n2 \<noteq> [] \<and> (\<forall>c \<in> set n2. isDigit c)"
  using assms
proof (induction s)
  case Nil
  then show ?case by simp
next
  case (Cons c cs)
  show ?case
  proof (cases "matchAt ops (c # cs)")
    case None
    with Cons.prems have "regexMatch ops cs = Some (n1, op, n2)" by simp
    from Cons.IH [OF this] obtain pre w1 w2 post where
      "cs = pre @ n1 @ w1 @ [op] @ w2 @ n2 @ post"
      and rest: "n1 \<noteq> []" "\<forall>c \<in> set n1. isDigit c" "\<forall>c \<in> set w1. isSpace c" "op \<in> set ops"
        "\<forall>c \<in> set w2. isSpace c" "n2 \<noteq> []" "\<forall>c \<in> set n2. isDigit c"
      by blast
    then have "c # cs = (c # pre) @ n1 @ w1 @ [op] @ w2 @ n2 @ post" by simp
    with rest show ?thesis by blast
  next
    case (Some m)
    with Cons.prems have "matchAt ops (c # cs) = Some (n1, op, n2)" by simp
    from matchAt_sound [OF this] obtain w1 w2 post where
      "c # cs = n1 @ w1 @ [op] @ w2 @ n2 @ post"
      and rest: "n1 \<noteq> []" "\<forall>c \<in> set n1. isDigit c" "\<forall>c \<in> set w1. isSpace c" "op \<in> set ops"
        "\<forall>c \<in> set w2. isSpace c" "n2 \<noteq> []" "\<forall>c \<in> set n2. isDigit c"
      by blast
    then have "c # cs = [] @ n1 @ w1 @ [op] @ w2 @ n2 @ post" by simp
    with rest show ?thesis by blast
  qed
qed

lemma regexMatch_complete:
  assumes ops: "\<forall>c \<in> set ops. \<not> isDigit c \<and> \<not> isSpace c"
    and d1: "d1 \<noteq> []" "\<forall>c \<in> set d1. isDigit c"
    and w1: "\<forall>c \<in> set w1. isSpace c"
    and op: "op \<in> set ops"
    and w2: "\<forall>c \<in> set w2. isSpace c"
    and d2: "d2 \<noteq> []" "\<forall>c \<in> set d2. isDigit c"
  shows "regexMatch ops (pre @ d1 @ w1 @ [op] @ w2 @ d2 @ post) \<noteq> None"
proof (induction pre)
  case Nil
  have m: "matchAt ops (d1 @ w1 @ [op] @ w2 @ d2 @ post) \<noteq> None"
    using assms by (rule matchAt_complete)
  from d1(1) obtain x xs where "d1 = x # xs" by (cases d1) auto
  with m show ?case by (auto split: option.splits)
next
  case (Cons p ps)
  then show ?case by (auto split: option.splits)
qed

lemma regexTest_iff:
  assumes "\<forall>c \<in> set ops. \<not> isDigit c \<and> \<not> isSpace c"
  shows "regexTest ops s \<longleftrightarrow> digitRunsAroundOperator ops s"
proof
  assume "regexTest ops s"
  then obtain n1 op n2 where "regexMatch ops s = Some (n1, op, n2)"
    by (auto simp: regexTest_def)
  from regexMatch_sound [OF this] show "digitRunsAroundOperator ops s"
    unfolding digitRunsAroundOperator_def by blast
next
  assume "digitRunsAroundOperator ops s"
  then obtain pre d1 w1 op w2 d2 post where
    s: "s = pre @ d1 @ w1 @ [op] @ w2 @ d2 @ post"
    and parts: "d1 \<noteq> []" "\<forall>c \<in> set d1. isDigit c" "\<forall>c \<in> set w1. isSpace c"
      "op \<in> set ops" "\<forall>c \<in> set w2. isSpace c" "d2 \<noteq> []" "\<forall>c \<in> set d2. isDigit c"
    unfolding digitRunsAroundOperator_def by blast
  have "regexMatch ops (pre @ d1 @ w1 @ [op] @ w2 @ d2 @ post) \<noteq> None"
    using assms parts by (rule regexMatch_complete)
  then show "regexTest ops s"
    unfolding regexTest_def s .
qed

section \<open>The two paths of the evaluator\<close>

lemma executeMathExpression_exact:
  assumes "hasLargeNumbers (removeSpaces (trim e))"
  shows "executeMathExpression h e = evaluateBigInt (removeSpaces (trim e))"
  using assms by (simp add: executeMathExpression_def)

lemma executeMathExpression_float:
  assumes "\<not> hasLargeNumbers (removeSpaces (trim e))"
  shows "executeMathExpression h e =
           (case callFunction h (functionBody (removeSpaces (trim e))) of
              Inl message \<Rightarrow> Failure message
            | Inr result \<Rightarrow> Success result (formatNumber result))"
  using assms by (simp add: executeMathExpression_def)

lemma evaluateBigInt_success:
  assumes "evaluateBigInt expr = Success v f"
  shows "(\<exists>i. v = String (bigIntToString i)) \<and> f = v"
  using assms
  by (auto simp: evaluateBigInt_def Let_def split: option.splits prod.splits if_splits)

text \<open>The executable forms of the two patterns in words.\<close>

lemma operators_apart: "\<forall>c \<in> set ''+-*/^%''. \<not> isDigit c \<and> \<not> isSpace c"
  by (simp add: isDigit_def isSpace_def)

lemma containsKeyword_code:
  "containsKeyword text = list_ex (\<lambda>keyword. stringIncludes (toLowerCase text) keyword) mathKeywords"
  by (simp add: containsKeyword_def specKeywords_def mathKeywords_def list_ex_iff stringIncludes_iff)

lemma digitRunsAroundOperator_code:
  "digitRunsAroundOperator ''+-*/^%'' s = regexTest ''+-*/^%'' s"
  using regexTest_iff [OF operators_apart] by simp

section \<open>Division by zero and the two branches of the formatter\<close>

text \<open>
  A division of two integer literals on the exact path is matched whole, and on the
  floating-point path it is a program of the arithmetic fragment. A division by a zero of
  either sign is never finite.
\<close>

lemma slash_apart: "\<not> isDigit CHR ''/'' \<and> \<not> isSpace CHR ''/'' \<and> CHR ''/'' \<noteq> CHR ''.''"
  by (simp add: isDigit_def isSpace_def)

lemma digits_no_space:
  assumes "\<forall>c \<in> set d. isDigit c"
  shows "\<forall>c \<in> set d. \<not> isSpace c"
  using assms digit_not_space by blast

lemma matchAt_division:
  assumes d1: "d1 \<noteq> []" "\<forall>c \<in> set d1. isDigit c"
    and d2: "d2 \<noteq> []" "\<forall>c \<in> set d2. isDigit c"
  shows "matchAt ''+-*/'' (d1 @ CHR ''/'' # d2) = Some (d1, CHR ''/'', d2)"
proof -
  from d2 obtain x xs where d2_eq: "d2 = x # xs" and x: "isDigit x" by (cases d2) auto
  have x_ns: "\<not> isSpace x" using x by (rule digit_not_space)
  have take1: "takeWhile isDigit (d1 @ CHR ''/'' # d2) = d1"
    using d1(2) slash_apart by simp
  have drop1: "dropWhile isDigit (d1 @ CHR ''/'' # d2) = CHR ''/'' # d2"
    using d1(2) slash_apart by simp
  have drop2: "dropWhile isSpace d2 = d2"
    using x_ns by (simp add: d2_eq)
  have take2: "takeWhile isDigit d2 = d2"
    using d2(2) by (simp add: takeWhile_eq_all_conv)
  show ?thesis
    using d1(1) d2(1) slash_apart
    by (simp add: matchAt_def Let_def take1 drop1 drop2 take2)
qed

lemma regexMatch_division:
  assumes d1: "d1 \<noteq> []" "\<forall>c \<in> set d1. isDigit c"
    and d2: "d2 \<noteq> []" "\<forall>c \<in> set d2. isDigit c"
  shows "regexMatch ''+-*/'' (d1 @ CHR ''/'' # d2) = Some (d1, CHR ''/'', d2)"
proof -
  from d1(1) obtain c cs where d1_eq: "d1 = c # cs" by (cases d1) auto
  from matchAt_division [OF assms]
  have "matchAt ''+-*/'' (c # cs @ CHR ''/'' # d2) = Some (d1, CHR ''/'', d2)"
    by (simp add: d1_eq)
  then show ?thesis by (simp add: d1_eq)
qed

lemma division_no_space:
  assumes "\<forall>c \<in> set d1. isDigit c" and "\<forall>c \<in> set d2. isDigit c"
  shows "removeSpaces (trim (d1 @ CHR ''/'' # d2)) = d1 @ CHR ''/'' # d2"
proof (rule removeSpaces_id)
  show "\<forall>c \<in> set (d1 @ CHR ''/'' # d2). \<not> isSpace c"
    using digits_no_space [OF assms(1)] digits_no_space [OF assms(2)] slash_apart by auto
qed

lemma BigInt_zeros:
  assumes "\<forall>c \<in> set d. c = CHR ''0''"
  shows "BigInt d = 0"
proof -
  have "foldl (\<lambda>n c. 10 * n + digitValue c) 0 d = 0"
    using assms by (induction d) (simp_all add: digitValue_def)
  then show ?thesis by (simp add: BigInt_def)
qed

lemma numDiv_by_zero:
  assumes "isZero y"
  shows "\<not> isFiniteNumber (numDiv x y)"
  using assms
  by (auto simp: numDiv_def isFiniteNumber_def isNaN_def isInfinite_def isZero_def signed_def
      Let_def)

lemma scanNumber_integer:
  assumes "\<forall>c \<in> set d. isDigit c" and "\<not> isDigit x" and "x \<noteq> CHR ''.''"
  shows "scanNumber (d @ x # rest) = (d, [], x # rest)"
  using assms by (simp add: scanNumber_def)

lemma tokenize_division_by_zero:
  assumes d1: "d1 \<noteq> []" "\<forall>c \<in> set d1. isDigit c"
    and strict: "\<not> (1 < length d1 \<and> hd d1 = CHR ''0'')"
  shows "tokenize (CHR ''('' # d1 @ ''/0)'')
         = Some [TOpen, TNumber (roundToDouble (of_int (BigInt d1))), TSlash,
                 TNumber (Finite 0), TClose]"
proof -
  from d1 obtain c cs where d1_eq: "d1 = c # cs" and c: "isDigit c" by (cases d1) auto
  have rest: "tokenize ''/0)'' = Some [TSlash, TNumber (Finite 0), TClose]"
    by code_simp
  have scan: "scanNumber (d1 @ ''/0)'') = (d1, [], ''/0)'')"
    using scanNumber_integer [OF d1(2), of "CHR ''/''" "''0)''"] slash_apart by simp
  have scan': "scanNumber (c # cs @ ''/0)'') = (c # cs, [], ''/0)'')"
    using scan by (simp add: d1_eq)
  have strict': "\<not> (1 < length (c # cs) \<and> hd (c # cs) = CHR ''0'')"
    using strict unfolding d1_eq .
  have "tokenize (c # cs @ ''/0)'')
        = map_option (Cons (TNumber (roundToDouble (decimalValue (c # cs) [])))) (tokenize ''/0)'')"
    by (subst tokenize.simps(2)) (use c scan' strict' in auto)
  then have "tokenize (d1 @ ''/0)'')
        = Some [TNumber (roundToDouble (of_int (BigInt d1))), TSlash, TNumber (Finite 0), TClose]"
    by (simp add: rest decimalValue_def BigInt_def d1_eq)
  moreover have "tokenize (CHR ''('' # d1 @ ''/0)'') = map_option (Cons TOpen) (tokenize (d1 @ ''/0)''))"
    by (simp add: tokenize.simps(2) [of "CHR ''(''"] isDigit_def)
  ultimately show ?thesis by simp
qed

lemma parse_division:
  "parseAdditive 24 [TOpen, TNumber a, TSlash, TNumber b, TClose] = Some (numDiv a b, [])"
  by (simp add: eval_nat_numeral)

lemma arithmeticValue_division_by_zero:
  assumes d1: "d1 \<noteq> []" "\<forall>c \<in> set d1. isDigit c"
    and strict: "\<not> (1 < length d1 \<and> hd d1 = CHR ''0'')"
  shows "arithmeticValue (''('' @ d1 @ ''/0)'')
         = Some (numDiv (roundToDouble (of_int (BigInt d1))) (Finite 0))"
  by (simp add: arithmeticValue_def tokenize_division_by_zero [OF assms] parse_division)

lemma callFunction_arithmetic:
  assumes "arithmeticValue (''('' @ cleaned @ '')'') = Some x"
  shows "callFunction h (functionBody cleaned) = Inr (Number x)"
  using assms by (simp add: callFunction_def functionBody_def stripPrefix_def)

lemma formatNumber_scientific:
  assumes "numLess (Math_abs x) (roundToDouble (1 / 10000))
           \<or> numLess (Finite 10000000000) (Math_abs x)"
  shows "formatNumber (Number x) = String (toExponential 4 x)"
  using assms by (simp add: formatNumber_def)

lemma formatNumber_plain:
  assumes "\<not> numLess (Math_abs x) (roundToDouble (1 / 10000))"
    and "\<not> numLess (Finite 10000000000) (Math_abs x)"
  shows "formatNumber (Number x)
         = Number (numDiv (Math_round (numMul x (Finite 1000000))) (Finite 1000000))"
  using assms by (simp add: formatNumber_def)

section \<open>The claims\<close>

text \<open>
  C1. The claim: every expression with a run of ten or more digits and more than one binary
  operator is refused with the message \<open>Complex expression not supported\<close>. The pattern of
  \<open>evaluateBigInt\<close> is not anchored, so it matches the first operation inside a longer
  expression: on \<open>1234567890+1+1\<close> the evaluator succeeds, with the value of
  \<open>1234567890+1\<close>, and the second addition is dropped.
\<close>

theorem C1_first_operation_only:
  "executeMathExpression h ''1234567890+1+1''
     = Success (String ''1234567891'') (String ''1234567891'')"
  by code_simp

text \<open>
  C2. The claim: the floating-point path executes nothing beyond arithmetic over numeric
  literals, parentheses, the four binary operators and unary minus. The source calls its
  evaluator a safe function, but it is the \<open>Function\<close> constructor, and nothing checks the
  text before the call: an expression that names an identifier and calls it reaches the
  engine as it is, inside \<open>"use strict"; return (...)\<close>, and the result of
  \<open>executeMathExpression\<close> is whatever the engine makes of that program. So does a text
  of the sanitized alphabet that is outside the arithmetic of the claim, such as the
  exponent operator in \<open>2**3\<close>.
\<close>

theorem C2_text_reaches_interpreter:
  "executeMathExpression h ''alert(1)''
     = (case runProgram h (functionBody ''alert(1)'') of
          Inl message \<Rightarrow> Failure message
        | Inr result \<Rightarrow> Success result (formatNumber result))
   \<and> executeMathExpression h ''2**3''
     = (case runProgram h (functionBody ''2**3'') of
          Inl message \<Rightarrow> Failure message
        | Inr result \<Rightarrow> Success result (formatNumber result))"
  by (rule conjI; code_simp)

text \<open>
  C3. An expression that holds a run of ten or more digits goes to the exact path,
  \<open>evaluateBigInt\<close> on the expression without its white space. An expression without such a
  run goes to the floating-point path, the interpreter on \<open>"use strict"; return (e)\<close>; this
  half is stated for an expression without white space, as the pipeline's sanitized
  expressions are, since the test for the run is made after the white space is removed.
  \<open>hasLargeNumbers\<close> holds exactly when ten or more digits stand in a row. The two examples:
  \<open>1234567890+1\<close> gives the string \<open>1234567891\<close>, and \<open>2+2\<close> gives the number 4.
\<close>

theorem C3_dispatch:
  "(hasLargeNumbers e \<longrightarrow>
      executeMathExpression h e = evaluateBigInt (removeSpaces (trim e)))
   \<and> ((\<forall>c \<in> set e. \<not> isSpace c) \<and> \<not> hasLargeNumbers e \<longrightarrow>
      executeMathExpression h e =
        (case callFunction h (functionBody e) of
           Inl message \<Rightarrow> Failure message
         | Inr result \<Rightarrow> Success result (formatNumber result)))
   \<and> (hasLargeNumbers e \<longleftrightarrow>
        (\<exists>pre run post. e = pre @ run @ post \<and> 10 \<le> length run \<and> (\<forall>c \<in> set run. isDigit c)))
   \<and> executeMathExpression h ''1234567890+1''
        = Success (String ''1234567891'') (String ''1234567891'')
   \<and> executeMathExpression h ''2+2'' = Success (Number (Finite 4)) (Number (Finite 4))"
proof (intro conjI impI)
  assume "hasLargeNumbers e"
  then have "hasLargeNumbers (removeSpaces (trim e))"
    by (simp only: removeSpaces_trim hasLargeNumbers_removeSpaces)
  then show "executeMathExpression h e = evaluateBigInt (removeSpaces (trim e))"
    by (rule executeMathExpression_exact)
next
  assume a: "(\<forall>c \<in> set e. \<not> isSpace c) \<and> \<not> hasLargeNumbers e"
  then have c: "removeSpaces (trim e) = e" by (simp add: removeSpaces_id)
  with a have "\<not> hasLargeNumbers (removeSpaces (trim e))" by simp
  from executeMathExpression_float [OF this, of h] c
  show "executeMathExpression h e =
        (case callFunction h (functionBody e) of
           Inl message \<Rightarrow> Failure message
         | Inr result \<Rightarrow> Success result (formatNumber result))"
    by simp
next
  show "hasLargeNumbers e \<longleftrightarrow>
        (\<exists>pre run post. e = pre @ run @ post \<and> 10 \<le> length run \<and> (\<forall>c \<in> set run. isDigit c))"
    by (rule hasLargeNumbers_iff)
next
  show "executeMathExpression h ''1234567890+1''
        = Success (String ''1234567891'') (String ''1234567891'')"
    by code_simp
next
  show "executeMathExpression h ''2+2'' = Success (Number (Finite 4)) (Number (Finite 4))"
    by code_simp
qed

text \<open>The theorem at the two examples, with the sample host.\<close>

theorem C3_dispatch_witness:
  "hasLargeNumbers ''1234567890+1''
   \<and> executeMathExpression sampleHost ''1234567890+1''
       = evaluateBigInt (removeSpaces (trim ''1234567890+1''))
   \<and> \<not> hasLargeNumbers ''2+2''
   \<and> executeMathExpression sampleHost ''2+2''
       = (case callFunction sampleHost (functionBody ''2+2'') of
            Inl message \<Rightarrow> Failure message
          | Inr result \<Rightarrow> Success result (formatNumber result))"
proof -
  have big: "hasLargeNumbers ''1234567890+1''" by code_simp
  have small: "(\<forall>c \<in> set ''2+2''. \<not> isSpace c) \<and> \<not> hasLargeNumbers ''2+2''" by code_simp
  from C3_dispatch [of "''1234567890+1''" sampleHost] big
  have "executeMathExpression sampleHost ''1234567890+1''
       = evaluateBigInt (removeSpaces (trim ''1234567890+1''))"
    by blast
  moreover from C3_dispatch [of "''2+2''" sampleHost] small
  have "executeMathExpression sampleHost ''2+2''
       = (case callFunction sampleHost (functionBody ''2+2'') of
            Inl message \<Rightarrow> Failure message
          | Inr result \<Rightarrow> Success result (formatNumber result))"
    by blast
  ultimately show ?thesis using big small by blast
qed

text \<open>
  C5. The claim: a numeric result of zero is rounded to six decimals and rendered as a plain
  decimal, scientific notation being for magnitudes that are non-zero and below \<open>1e-4\<close>, or
  above \<open>1e10\<close>. The test of \<open>formatNumber\<close> is \<open>Math.abs(num) < 0.0001\<close>, with no case for
  zero: a result of zero is rendered \<open>0.0000e+0\<close>.
\<close>

theorem C5_zero_in_scientific_notation:
  "formatNumber (Number (Finite 0)) = String ''0.0000e+0''"
  by code_simp

text \<open>
  C9. The claim: \<open>generate\<close> uses exactly the temperature the caller supplies, a supplied 0
  included. The request is built with \<open>options.temperature || 0.7\<close>, and 0 is falsy: a caller
  who supplies 0 gets the default, the double nearest to 0.7.
\<close>

theorem C9_zero_temperature_replaced:
  "reqOptions (requestBody ollamaService prompt (noOptions\<lparr>optTemperature := Some (Finite 0)\<rparr>))
     ''temperature'' = Some (Number (roundToDouble (7 / 10)))
   \<and> roundToDouble (7 / 10) \<noteq> Finite 0"
proof
  show "reqOptions (requestBody ollamaService prompt (noOptions\<lparr>optTemperature := Some (Finite 0)\<rparr>))
     ''temperature'' = Some (Number (roundToDouble (7 / 10)))"
    by (simp add: requestBody_def noOptions_def truthyNumber_def isZero_def)
  show "roundToDouble (7 / 10) \<noteq> Finite 0"
    by code_simp
qed

text \<open>
  C10. The exact path is for a single operation on two integers. For every expression of
  that form that is a division, \<open>d1/d2\<close> with \<open>d1\<close> a run of digits and \<open>d2\<close> a run of
  zeros, and that holds ten or more digits in a row, the BigInt division throws, the
  \<open>catch\<close> of \<open>evaluateBigInt\<close> turns the exception into a failure that carries its message,
  and that is the result of the evaluator; so for \<open>1234567890/0\<close>. On the floating-point
  path, for every integer literal \<open>d1\<close> that strict mode accepts, \<open>d1/0\<close> succeeds with a
  number that is not finite, as does every division of numbers by a zero of either sign;
  \<open>2/0\<close> gives \<open>Infinity\<close>. (An expression with more than one operator is the subject of C1.)
\<close>

theorem C10_division_by_zero:
  "(d1 \<noteq> [] \<and> (\<forall>c \<in> set d1. isDigit c) \<and> d2 \<noteq> [] \<and> (\<forall>c \<in> set d2. c = CHR ''0'')
      \<and> hasLargeNumbers (d1 @ ''/'' @ d2)
      \<longrightarrow> executeMathExpression h (d1 @ ''/'' @ d2) = Failure divisionByZeroMessage)
   \<and> executeMathExpression h ''1234567890/0'' = Failure divisionByZeroMessage
   \<and> (d1 \<noteq> [] \<and> (\<forall>c \<in> set d1. isDigit c) \<and> \<not> (1 < length d1 \<and> hd d1 = CHR ''0'')
      \<and> \<not> hasLargeNumbers (d1 @ ''/0'')
      \<longrightarrow> (\<exists>x. executeMathExpression h (d1 @ ''/0'')
                  = Success (Number x) (formatNumber (Number x))
               \<and> \<not> isFiniteNumber x))
   \<and> (isZero y \<longrightarrow> \<not> isFiniteNumber (numDiv x y))
   \<and> executeMathExpression h ''2/0'' = Success (Number PlusInfinity) (String ''Infinity'')"
proof (intro conjI impI)
  assume a0: "d1 \<noteq> [] \<and> (\<forall>c \<in> set d1. isDigit c) \<and> d2 \<noteq> [] \<and> (\<forall>c \<in> set d2. c = CHR ''0'')
      \<and> hasLargeNumbers (d1 @ ''/'' @ d2)"
  then have "\<forall>c \<in> set d2. isDigit c" by (simp add: isDigit_def)
  moreover from a0 have "BigInt d2 = 0" by (simp add: BigInt_zeros)
  ultimately have a: "d1 \<noteq> [] \<and> (\<forall>c \<in> set d1. isDigit c) \<and> d2 \<noteq> [] \<and> (\<forall>c \<in> set d2. isDigit c)
      \<and> BigInt d2 = 0 \<and> hasLargeNumbers (d1 @ ''/'' @ d2)"
    using a0 by blast
  then have clean: "removeSpaces (trim (d1 @ ''/'' @ d2)) = d1 @ ''/'' @ d2"
    by (simp add: division_no_space)
  from a have m: "regexMatch ''+-*/'' (d1 @ ''/'' @ d2) = Some (d1, CHR ''/'', d2)"
    by (simp add: regexMatch_division)
  from a clean have "executeMathExpression h (d1 @ ''/'' @ d2) = evaluateBigInt (d1 @ ''/'' @ d2)"
    using executeMathExpression_exact [of "d1 @ ''/'' @ d2" h] by simp
  also from a m have "\<dots> = Failure divisionByZeroMessage"
    by (simp add: evaluateBigInt_def)
  finally show "executeMathExpression h (d1 @ ''/'' @ d2) = Failure divisionByZeroMessage" .
next
  show "executeMathExpression h ''1234567890/0'' = Failure divisionByZeroMessage"
    by code_simp
next
  assume a: "d1 \<noteq> [] \<and> (\<forall>c \<in> set d1. isDigit c) \<and> \<not> (1 < length d1 \<and> hd d1 = CHR ''0'')
      \<and> \<not> hasLargeNumbers (d1 @ ''/0'')"
  let ?x = "numDiv (roundToDouble (of_int (BigInt d1))) (Finite 0)"
  have zero: "\<forall>c \<in> set ''0''. isDigit c" by (simp add: isDigit_def)
  from a have clean: "removeSpaces (trim (d1 @ ''/0'')) = d1 @ ''/0''"
    using division_no_space [of d1 "''0''"] zero by simp
  from a have "arithmeticValue (''('' @ (d1 @ ''/0'') @ '')'') = Some ?x"
    using arithmeticValue_division_by_zero [of d1] by simp
  then have call: "callFunction h (functionBody (d1 @ ''/0'')) = Inr (Number ?x)"
    by (rule callFunction_arithmetic)
  from a clean have "\<not> hasLargeNumbers (removeSpaces (trim (d1 @ ''/0'')))" by simp
  from executeMathExpression_float [OF this, of h] clean call
  have "executeMathExpression h (d1 @ ''/0'') = Success (Number ?x) (formatNumber (Number ?x))"
    by simp
  moreover have "\<not> isFiniteNumber ?x"
    by (rule numDiv_by_zero) (simp add: isZero_def)
  ultimately show "\<exists>x. executeMathExpression h (d1 @ ''/0'')
                  = Success (Number x) (formatNumber (Number x))
               \<and> \<not> isFiniteNumber x"
    by blast
next
  assume "isZero y"
  then show "\<not> isFiniteNumber (numDiv x y)" by (rule numDiv_by_zero)
next
  show "executeMathExpression h ''2/0'' = Success (Number PlusInfinity) (String ''Infinity'')"
    by code_simp
qed

text \<open>The theorem at \<open>1234567890/0\<close>, at \<open>2/0\<close> and at a division by the negative zero.\<close>

theorem C10_division_by_zero_witness:
  "executeMathExpression sampleHost ''1234567890/0'' = Failure divisionByZeroMessage
   \<and> (\<exists>x. executeMathExpression sampleHost ''2/0''
              = Success (Number x) (formatNumber (Number x))
           \<and> \<not> isFiniteNumber x)
   \<and> \<not> isFiniteNumber (numDiv (Finite 2) MinusZero)"
proof -
  have a: "''1234567890'' \<noteq> [] \<and> (\<forall>c \<in> set ''1234567890''. isDigit c)
           \<and> ''0'' \<noteq> [] \<and> (\<forall>c \<in> set ''0''. c = CHR ''0'')
           \<and> hasLargeNumbers (''1234567890'' @ ''/'' @ ''0'')"
    by code_simp
  have b: "''2'' \<noteq> [] \<and> (\<forall>c \<in> set ''2''. isDigit c)
           \<and> \<not> (1 < length ''2'' \<and> hd ''2'' = CHR ''0'')
           \<and> \<not> hasLargeNumbers (''2'' @ ''/0'')"
    by code_simp
  have c: "isZero MinusZero" by (simp add: isZero_def)
  from C10_division_by_zero [of "''1234567890''" "''0''" sampleHost MinusZero "Finite 2"] a
  have 1: "executeMathExpression sampleHost (''1234567890'' @ ''/'' @ ''0'')
             = Failure divisionByZeroMessage"
    by blast
  from C10_division_by_zero [of "''2''" "''0''" sampleHost MinusZero "Finite 2"] b
  have 2: "\<exists>x. executeMathExpression sampleHost (''2'' @ ''/0'')
              = Success (Number x) (formatNumber (Number x))
           \<and> \<not> isFiniteNumber x"
    by blast
  from C10_division_by_zero [of "''2''" "''0''" sampleHost MinusZero "Finite 2"] c
  have 3: "\<not> isFiniteNumber (numDiv (Finite 2) MinusZero)"
    by blast
  from 1 2 3 show ?thesis by simp
qed

text \<open>
  C4, as the specification states it: whenever the evaluator succeeds, the value is a finite
  number or an exact integer string, and \<open>formatted\<close> is a string. It fails on the
  floating-point path: \<open>2/0\<close> succeeds with the value \<open>Infinity\<close>, which is not finite, and
  \<open>2+2\<close> succeeds with \<open>formatted\<close> the number 4, not a string.
\<close>

theorem C4_counterexample:
  "executeMathExpression sampleHost ''2/0'' = Success (Number PlusInfinity) (String ''Infinity'')
   \<and> \<not> isFiniteNumber PlusInfinity
   \<and> executeMathExpression sampleHost ''2+2'' = Success (Number (Finite 4)) (Number (Finite 4))"
proof (intro conjI)
  show "executeMathExpression sampleHost ''2/0''
          = Success (Number PlusInfinity) (String ''Infinity'')"
    by code_simp
  show "\<not> isFiniteNumber PlusInfinity"
    by (simp add: isFiniteNumber_def isInfinite_def)
  show "executeMathExpression sampleHost ''2+2''
          = Success (Number (Finite 4)) (Number (Finite 4))"
    by code_simp
qed

text \<open>
  C4, amended. Whenever the evaluator succeeds, one of two holds. On the exact path the value
  is the decimal string of an integer and \<open>formatted\<close> is the same string. On the
  floating-point path the value of an arithmetic expression (literals, parentheses,
  \<open>+ - * /\<close> and the unary signs) is a floating-point number, which need not be finite; and
  for a value that is a number, \<open>formatted\<close> is the string \<open>toExponential(4)\<close> gives when the
  magnitude is not zero and is below \<open>0.0001\<close> or above \<open>1e10\<close>, and it is a number, not a
  string, when the magnitude is neither below \<open>0.0001\<close> nor above \<open>1e10\<close>: the value times
  \<open>1e6\<close>, rounded to the nearest integer with a tie going up, divided by \<open>1e6\<close>. Nothing is
  said of a zero, nor of a value that is not a number. The examples: \<open>1/3\<close> is formatted
  as the number 0.333333, \<open>1/128\<close> (0.0078125) as 0.007813 and \<open>-1/128\<close> as -0.007812,
  \<open>1/20000\<close> as the string \<open>5.0000e-5\<close> and \<open>99999*999999\<close> as the string \<open>9.9999e+10\<close>.
\<close>

theorem C4_success_shape:
  "(executeMathExpression h e = Success v f \<longrightarrow>
      (hasLargeNumbers (removeSpaces (trim e))
         \<and> (\<exists>i. v = String (bigIntToString i)) \<and> f = v)
      \<or> (\<not> hasLargeNumbers (removeSpaces (trim e))
         \<and> (\<forall>x. arithmeticValue (''('' @ removeSpaces (trim e) @ '')'') = Some x
                \<longrightarrow> v = Number x)
         \<and> (\<forall>x. v = Number x \<longrightarrow>
               (\<not> isZero x
                  \<and> (numLess (Math_abs x) (roundToDouble (1 / 10000))
                     \<or> numLess (Finite 10000000000) (Math_abs x))
                  \<longrightarrow> f = String (toExponential 4 x))
               \<and> (\<not> numLess (Math_abs x) (roundToDouble (1 / 10000))
                  \<and> \<not> numLess (Finite 10000000000) (Math_abs x)
                  \<longrightarrow> f = Number (numDiv (Math_round (numMul x (Finite 1000000)))
                                     (Finite 1000000))))))
   \<and> executeMathExpression h ''1/3''
       = Success (Number (Finite (6004799503160661 / 18014398509481984)))
                 (Number (Finite (3002396749180579 / 9007199254740992)))
   \<and> executeMathExpression h ''1/128''
       = Success (Number (Finite (1 / 128)))
                 (Number (Finite (562985982218331 / 72057594037927936)))
   \<and> executeMathExpression h ''-1/128''
       = Success (Number (Finite (- 1 / 128)))
                 (Number (Finite (- 9006622793988689 / 1152921504606846976)))
   \<and> executeMathExpression h ''1/20000''
       = Success (Number (Finite (7378697629483821 / 147573952589676412928)))
                 (String ''5.0000e-5'')
   \<and> executeMathExpression h ''99999*999999''
       = Success (Number (Finite 99998900001)) (String ''9.9999e+10'')"
proof (intro conjI impI)
  assume ok: "executeMathExpression h e = Success v f"
  let ?c = "removeSpaces (trim e)"
  show "(hasLargeNumbers ?c \<and> (\<exists>i. v = String (bigIntToString i)) \<and> f = v)
      \<or> (\<not> hasLargeNumbers ?c
         \<and> (\<forall>x. arithmeticValue (''('' @ ?c @ '')'') = Some x \<longrightarrow> v = Number x)
         \<and> (\<forall>x. v = Number x \<longrightarrow>
               (\<not> isZero x
                  \<and> (numLess (Math_abs x) (roundToDouble (1 / 10000))
                     \<or> numLess (Finite 10000000000) (Math_abs x))
                  \<longrightarrow> f = String (toExponential 4 x))
               \<and> (\<not> numLess (Math_abs x) (roundToDouble (1 / 10000))
                  \<and> \<not> numLess (Finite 10000000000) (Math_abs x)
                  \<longrightarrow> f = Number (numDiv (Math_round (numMul x (Finite 1000000)))
                                     (Finite 1000000)))))"
  proof (cases "hasLargeNumbers ?c")
    case True
    with ok have "evaluateBigInt ?c = Success v f"
      by (simp add: executeMathExpression_exact)
    from evaluateBigInt_success [OF this] True show ?thesis by blast
  next
    case False
    from ok executeMathExpression_float [OF False, of h]
    have r: "callFunction h (functionBody ?c) = Inr v" and f: "f = formatNumber v"
      by (auto split: sum.splits)
    have number: "\<forall>x. arithmeticValue (''('' @ ?c @ '')'') = Some x \<longrightarrow> v = Number x"
    proof (intro allI impI)
      fix x
      assume "arithmeticValue (''('' @ ?c @ '')'') = Some x"
      then have "callFunction h (functionBody ?c) = Inr (Number x)"
        by (rule callFunction_arithmetic)
      with r show "v = Number x" by simp
    qed
    have shape: "\<forall>x. v = Number x \<longrightarrow>
               (\<not> isZero x
                  \<and> (numLess (Math_abs x) (roundToDouble (1 / 10000))
                     \<or> numLess (Finite 10000000000) (Math_abs x))
                  \<longrightarrow> f = String (toExponential 4 x))
               \<and> (\<not> numLess (Math_abs x) (roundToDouble (1 / 10000))
                  \<and> \<not> numLess (Finite 10000000000) (Math_abs x)
                  \<longrightarrow> f = Number (numDiv (Math_round (numMul x (Finite 1000000)))
                                     (Finite 1000000)))"
      using f by (auto simp: formatNumber_scientific formatNumber_plain)
    from False number shape show ?thesis by blast
  qed
next
  show "executeMathExpression h ''1/3''
       = Success (Number (Finite (6004799503160661 / 18014398509481984)))
                 (Number (Finite (3002396749180579 / 9007199254740992)))"
    by code_simp
next
  show "executeMathExpression h ''1/128''
       = Success (Number (Finite (1 / 128)))
                 (Number (Finite (562985982218331 / 72057594037927936)))"
    by code_simp
next
  show "executeMathExpression h ''-1/128''
       = Success (Number (Finite (- 1 / 128)))
                 (Number (Finite (- 9006622793988689 / 1152921504606846976)))"
    by code_simp
next
  show "executeMathExpression h ''1/20000''
       = Success (Number (Finite (7378697629483821 / 147573952589676412928)))
                 (String ''5.0000e-5'')"
    by code_simp
next
  show "executeMathExpression h ''99999*999999''
       = Success (Number (Finite 99998900001)) (String ''9.9999e+10'')"
    by code_simp
qed

text \<open>The theorem at \<open>2/0\<close> and at \<open>2+2\<close>, with the sample host.\<close>

theorem C4_success_shape_witness:
  "String ''Infinity'' = String (toExponential 4 PlusInfinity)
   \<and> Number (Finite 4)
       = Number (numDiv (Math_round (numMul (Finite 4) (Finite 1000000))) (Finite 1000000))"
proof -
  have ev1: "executeMathExpression sampleHost ''2/0''
              = Success (Number PlusInfinity) (String ''Infinity'')"
    by code_simp
  have small1: "\<not> hasLargeNumbers (removeSpaces (trim ''2/0''))"
    by code_simp
  have range1: "\<not> isZero PlusInfinity
                \<and> (numLess (Math_abs PlusInfinity) (roundToDouble (1 / 10000))
                   \<or> numLess (Finite 10000000000) (Math_abs PlusInfinity))"
    by (simp add: isZero_def)
  have ev2: "executeMathExpression sampleHost ''2+2''
              = Success (Number (Finite 4)) (Number (Finite 4))"
    by code_simp
  have small2: "\<not> hasLargeNumbers (removeSpaces (trim ''2+2''))"
    by code_simp
  have range2: "\<not> numLess (Math_abs (Finite 4)) (roundToDouble (1 / 10000))
                \<and> \<not> numLess (Finite 10000000000) (Math_abs (Finite 4))"
    by code_simp
  from C4_success_shape [of sampleHost "''2/0''" "Number PlusInfinity" "String ''Infinity''"]
    ev1 small1 range1
  have 1: "String ''Infinity'' = String (toExponential 4 PlusInfinity)"
    by blast
  from C4_success_shape [of sampleHost "''2+2''" "Number (Finite 4)" "Number (Finite 4)"]
    ev2 small2 range2
  have 2: "Number (Finite 4)
       = Number (numDiv (Math_round (numMul (Finite 4) (Finite 1000000))) (Finite 1000000))"
    by blast
  from 1 2 show ?thesis by blast
qed

text \<open>
  C6. When the extraction call returns and the evaluation of its sanitized text fails, the
  pipeline resolves to a run of exactly two stages, numbered 1 and 2, with the statuses
  complete and error, the message of the failure recorded on stage 2, the overall success
  false and no final answer; no third stage is part of the run.
\<close>

theorem C6_short_circuit:
  assumes "generate fetch this (extractPrompt userQuery)
             (noOptions\<lparr>optTemperature := Some (roundToDouble (1 / 10))\<rparr>) = Inr mathExpression"
    and "executeMathExpression h (sanitize (trim mathExpression)) = Failure message"
  shows "\<exists>run. solveWithPipeline fetch h this userQuery = Inr run
           \<and> length (stages run) = 2
           \<and> map stage (stages run) = [1, 2]
           \<and> map status (stages run) = [Complete, Error]
           \<and> stage_error (stages run ! 1) = Some message
           \<and> success run = False
           \<and> finalAnswer run = None"
  using assms by (simp add: solveWithPipeline_def Let_def)

text \<open>
  The theorem for a backend that answers \<open>1234567890\<close>, which the exact path refuses.
\<close>

theorem C6_short_circuit_witness:
  "\<exists>run. solveWithPipeline (replyingBackend ''1234567890'') sampleHost ollamaService ''what is 7+5''
             = Inr run
           \<and> length (stages run) = 2
           \<and> map stage (stages run) = [1, 2]
           \<and> map status (stages run) = [Complete, Error]
           \<and> stage_error (stages run ! 1) = Some ''Complex expression not supported''
           \<and> success run = False
           \<and> finalAnswer run = None"
proof -
  have g: "generate (replyingBackend ''1234567890'') ollamaService (extractPrompt ''what is 7+5'')
             (noOptions\<lparr>optTemperature := Some (roundToDouble (1 / 10))\<rparr>) = Inr ''1234567890''"
    by (simp add: generate_def replyingBackend_def)
  have e: "executeMathExpression sampleHost (sanitize (trim ''1234567890''))
             = Failure ''Complex expression not supported''"
    by code_simp
  from C6_short_circuit [OF g e] show ?thesis .
qed

text \<open>
  C7. When the extraction call returns the text \<open>raw\<close>, every run the pipeline resolves to
  has stage 1 complete, with the output \<open>raw\<close> without every character outside
  \<open>[0-9+\-*/().]\<close>, whether the evaluation of that output then succeeds or fails. The pipeline
  resolves to no run only when the evaluation succeeds and the formatting call of stage 3
  fails, an error it does not catch. The example: \<open>The answer is 12+5!\<close> becomes \<open>12+5\<close>.
\<close>

theorem C7_stage_one_output:
  assumes "generate fetch this (extractPrompt userQuery)
             (noOptions\<lparr>optTemperature := Some (roundToDouble (1 / 10))\<rparr>) = Inr raw"
  shows "((\<exists>run. solveWithPipeline fetch h this userQuery = Inr run
             \<and> status (stages run ! 0) = Complete
             \<and> stage_output (stages run ! 0)
                 = Some (String (filter (\<lambda>c. c \<in> set ''0123456789+-*/().'') raw)))
          \<or> (\<exists>failure result formatted.
                solveWithPipeline fetch h this userQuery = Inl failure
                \<and> executeMathExpression h (sanitize (trim raw)) = Success result formatted
                \<and> generate fetch this (formatPrompt h userQuery (sanitize (trim raw)) formatted)
                     (noOptions\<lparr>optTemperature := Some (roundToDouble (1 / 2))\<rparr>) = Inl failure))
         \<and> filter (\<lambda>c. c \<in> set ''0123456789+-*/().'') ''The answer is 12+5!'' = ''12+5''"
proof
  have s: "sanitize (trim raw) = filter (\<lambda>c. c \<in> set ''0123456789+-*/().'') raw"
    by (simp only: sanitize_trim) (simp add: sanitize_def)
  show "(\<exists>run. solveWithPipeline fetch h this userQuery = Inr run
             \<and> status (stages run ! 0) = Complete
             \<and> stage_output (stages run ! 0)
                 = Some (String (filter (\<lambda>c. c \<in> set ''0123456789+-*/().'') raw)))
          \<or> (\<exists>failure result formatted.
                solveWithPipeline fetch h this userQuery = Inl failure
                \<and> executeMathExpression h (sanitize (trim raw)) = Success result formatted
                \<and> generate fetch this (formatPrompt h userQuery (sanitize (trim raw)) formatted)
                     (noOptions\<lparr>optTemperature := Some (roundToDouble (1 / 2))\<rparr>) = Inl failure)"
  proof (cases "executeMathExpression h (sanitize (trim raw))")
    case (Failure message)
    with assms s show ?thesis
      by (simp add: solveWithPipeline_def Let_def)
  next
    case (Success result formatted)
    show ?thesis
    proof (cases "generate fetch this (formatPrompt h userQuery (sanitize (trim raw)) formatted)
                     (noOptions\<lparr>optTemperature := Some (roundToDouble (1 / 2))\<rparr>)")
      case (Inl failure)
      with assms Success show ?thesis
        by (simp add: solveWithPipeline_def Let_def)
    next
      case (Inr finalResponse)
      with assms Success s show ?thesis
        by (simp add: solveWithPipeline_def Let_def)
    qed
  qed
next
  show "filter (\<lambda>c. c \<in> set ''0123456789+-*/().'') ''The answer is 12+5!'' = ''12+5''"
    by simp
qed

text \<open>The theorem for a backend that answers \<open>The answer is 12+5!\<close>.\<close>

theorem C7_stage_one_output_witness:
  "\<exists>run. solveWithPipeline (replyingBackend ''The answer is 12+5!'') sampleHost ollamaService
             ''what is 12 plus 5'' = Inr run
           \<and> status (stages run ! 0) = Complete
           \<and> stage_output (stages run ! 0) = Some (String ''12+5'')"
proof -
  let ?fetch = "replyingBackend ''The answer is 12+5!''"
  have g: "generate ?fetch ollamaService (extractPrompt ''what is 12 plus 5'')
             (noOptions\<lparr>optTemperature := Some (roundToDouble (1 / 10))\<rparr>)
           = Inr ''The answer is 12+5!''"
    by (simp add: generate_def replyingBackend_def)
  have n: "\<And>prompt options. generate ?fetch ollamaService prompt options \<noteq> Inl failure" for failure
    by (simp add: generate_def replyingBackend_def)
  from C7_stage_one_output [OF g, of sampleHost] n show ?thesis
    by auto
qed

text \<open>
  C8. \<open>isMathQuery\<close> is true exactly when the lowercased text contains one of the keywords
  of the specification, or the text as given holds two runs of digits separated by one of
  \<open>+ - * / ^ %\<close> with optional white space around it. For \<open>what is 7+5\<close> it is true, the
  keyword and the pattern both matching; for \<open>hello there\<close> it is false.
\<close>

theorem C8_isMathQuery:
  "isMathQuery text = (containsKeyword text \<or> digitRunsAroundOperator ''+-*/^%'' text)
   \<and> isMathQuery ''what is 7+5''
   \<and> containsKeyword ''what is 7+5''
   \<and> digitRunsAroundOperator ''+-*/^%'' ''what is 7+5''
   \<and> \<not> isMathQuery ''hello there''"
proof (intro conjI)
  show "isMathQuery text = (containsKeyword text \<or> digitRunsAroundOperator ''+-*/^%'' text)"
    by (simp add: isMathQuery_def containsKeyword_code digitRunsAroundOperator_code)
next
  show "isMathQuery ''what is 7+5''" by code_simp
next
  have "list_ex (\<lambda>keyword. stringIncludes (toLowerCase ''what is 7+5'') keyword) mathKeywords"
    by code_simp
  then show "containsKeyword ''what is 7+5''" by (simp only: containsKeyword_code)
next
  have "regexTest ''+-*/^%'' ''what is 7+5''" by code_simp
  then show "digitRunsAroundOperator ''+-*/^%'' ''what is 7+5''"
    by (simp only: digitRunsAroundOperator_code)
next
  show "\<not> isMathQuery ''hello there''" by code_simp
qed

text \<open>The theorem at \<open>hello there\<close>: neither the keywords nor the pattern match.\<close>

theorem C8_isMathQuery_witness:
  "\<not> containsKeyword ''hello there''
   \<and> \<not> digitRunsAroundOperator ''+-*/^%'' ''hello there''"
  using C8_isMathQuery [of "''hello there''"] by blast

end
